theory Spec2Isabelle
  imports Complex_Main
begin

section \<open>JavaScript numbers\<close>

text \<open>
  Every \<^verbatim>\<open>number\<close> of the store is an IEEE 754 double. A value is a finite
  double, given by the rational it stands for, with \<open>Fin 0\<close> the positive zero;
  the negative zero; an infinity; or NaN. The result of an arithmetic operation
  on finite operands is the exact result rounded to the nearest double, ties to
  even, with overflow to an infinity and underflow through the subnormal numbers
  to a zero of the same sign.
\<close>

datatype jsnum = Fin rat | NegZero | PosInf | NegInf | NaN

text \<open>The number of binary digits of a natural number.\<close>

fun bit_length :: "nat \<Rightarrow> nat" where
  "bit_length n = (if n = 0 then 0 else Suc (bit_length (n div 2)))"

declare bit_length.simps [simp del]

definition pow2 :: "int \<Rightarrow> rat" where
  "pow2 k = (if 0 \<le> k then 2 ^ nat k else 1 / 2 ^ nat (- k))"

text \<open>For positive \<open>a\<close>, the exponent \<open>k\<close> with \<open>2^k \<le> a < 2^(k+1)\<close>.\<close>

definition floor_log2 :: "rat \<Rightarrow> int" where
  "floor_log2 a =
     (if 1 \<le> a then int (bit_length (nat \<lfloor>a\<rfloor>)) - 1
      else - int (bit_length (nat (\<lceil>1 / a\<rceil> - 1))))"

definition round_half_even :: "rat \<Rightarrow> int" where
  "round_half_even q =
     (if frac q < 1 / 2 then \<lfloor>q\<rfloor>
      else if 1 / 2 < frac q then \<lfloor>q\<rfloor> + 1
      else if even \<lfloor>q\<rfloor> then \<lfloor>q\<rfloor> else \<lfloor>q\<rfloor> + 1)"

definition signed_inf :: "bool \<Rightarrow> jsnum" where
  "signed_inf neg = (if neg then NegInf else PosInf)"

definition signed_zero :: "bool \<Rightarrow> jsnum" where
  "signed_zero neg = (if neg then NegZero else Fin 0)"

text \<open>
  The double with the sign \<open>neg\<close>, the exponent \<open>e\<close> and the significand \<open>m\<close>
  in units of \<open>2^(e - 52)\<close>: beyond the largest exponent 1023 it is an infinity,
  and a significand that was rounded down to nothing is a zero.
\<close>

definition pack_double :: "int \<Rightarrow> int \<Rightarrow> bool \<Rightarrow> jsnum" where
  "pack_double e m neg =
     (if 1023 < e \<or> (e = 1023 \<and> m = 2 ^ 53) then signed_inf neg
      else if m = 0 then signed_zero neg
      else Fin ((if neg then - 1 else 1) * of_int m * pow2 (e - 52)))"

definition round_at :: "int \<Rightarrow> rat \<Rightarrow> jsnum" where
  "round_at e x = pack_double e (round_half_even (\<bar>x\<bar> / pow2 (e - 52))) (x < 0)"

text \<open>
  Rounding of a rational that is not zero: 53 significant bits at its own
  exponent, which is not taken below the smallest normal exponent \<open>-1022\<close>.
\<close>

definition round_double :: "rat \<Rightarrow> jsnum" where
  "round_double x = round_at (max (floor_log2 \<bar>x\<bar>) (- 1022)) x"

text \<open>That a value is a double: a finite one is its own rounding.\<close>

definition is_double :: "jsnum \<Rightarrow> bool" where
  "is_double a = (case a of Fin x \<Rightarrow> x = 0 \<or> round_double x = Fin x | _ \<Rightarrow> True)"

text \<open>The sign bit (of a value that is not NaN), the zeros, the finite values.\<close>

fun negative :: "jsnum \<Rightarrow> bool" where
  "negative (Fin x) = (x < 0)"
| "negative NegZero = True"
| "negative NegInf = True"
| "negative _ = False"

fun is_zero :: "jsnum \<Rightarrow> bool" where
  "is_zero (Fin x) = (x = 0)"
| "is_zero NegZero = True"
| "is_zero _ = False"

fun finite_value :: "jsnum \<Rightarrow> rat option" where
  "finite_value (Fin x) = Some x"
| "finite_value NegZero = Some 0"
| "finite_value _ = None"

text \<open>
  \<^verbatim>\<open>a + b\<close>. An exact sum of zero is the positive zero unless both operands are
  the negative zero; opposite infinities give NaN.
\<close>

definition js_add :: "jsnum \<Rightarrow> jsnum \<Rightarrow> jsnum" where
  "js_add a b =
     (if a = NaN \<or> b = NaN then NaN
      else case (finite_value a, finite_value b) of
        (Some x, Some y) \<Rightarrow>
          (if x + y = 0 then signed_zero (a = NegZero \<and> b = NegZero)
           else round_double (x + y))
      | (Some x, None) \<Rightarrow> b
      | (None, Some y) \<Rightarrow> a
      | (None, None) \<Rightarrow> (if a = b then a else NaN))"

text \<open>
  \<^verbatim>\<open>a * b\<close>. The sign is the exclusive or of the signs; an infinity times a
  zero is NaN.
\<close>

definition js_mul :: "jsnum \<Rightarrow> jsnum \<Rightarrow> jsnum" where
  "js_mul a b =
     (if a = NaN \<or> b = NaN then NaN
      else case (finite_value a, finite_value b) of
        (Some x, Some y) \<Rightarrow>
          (if x * y = 0 then signed_zero (negative a \<noteq> negative b)
           else round_double (x * y))
      | _ \<Rightarrow>
          (if is_zero a \<or> is_zero b then NaN
           else signed_inf (negative a \<noteq> negative b)))"

text \<open>
  \<^verbatim>\<open>a / b\<close>. Nothing is raised on a zero divisor: a zero over a zero is NaN
  and any other number over a zero is an infinity, whose sign is the exclusive
  or of the signs, the sign of the zero included.
\<close>

definition js_div :: "jsnum \<Rightarrow> jsnum \<Rightarrow> jsnum" where
  "js_div a b =
     (if a = NaN \<or> b = NaN then NaN
      else case (finite_value a, finite_value b) of
        (Some x, Some y) \<Rightarrow>
          (if y = 0 then (if x = 0 then NaN else signed_inf (negative a \<noteq> negative b))
           else if x = 0 then signed_zero (negative a \<noteq> negative b)
           else round_double (x / y))
      | (Some x, None) \<Rightarrow> signed_zero (negative a \<noteq> negative b)
      | (None, Some y) \<Rightarrow> signed_inf (negative a \<noteq> negative b)
      | (None, None) \<Rightarrow> NaN)"

text \<open>
  The place of a value in the order of the numbers: the infinities outside the
  finite values, the two zeros at the same place.
\<close>

fun extended :: "jsnum \<Rightarrow> int \<times> rat" where
  "extended (Fin x) = (0, x)"
| "extended NegZero = (0, 0)"
| "extended PosInf = (1, 0)"
| "extended NegInf = (- 1, 0)"
| "extended NaN = (0, 0)"

text \<open>\<^verbatim>\<open>a >= b\<close>: false as soon as one side is NaN.\<close>

definition js_ge :: "jsnum \<Rightarrow> jsnum \<Rightarrow> bool" where
  "js_ge a b =
     (a \<noteq> NaN \<and> b \<noteq> NaN \<and>
      (fst (extended b) < fst (extended a) \<or>
       (fst (extended b) = fst (extended a) \<and> snd (extended b) \<le> snd (extended a))))"

text \<open>
  \<^verbatim>\<open>Math.min(a, b)\<close> and \<^verbatim>\<open>Math.max(a, b)\<close>: NaN as soon as one argument is NaN;
  the negative zero counts as less than the positive one.
\<close>

definition Math_min :: "jsnum \<Rightarrow> jsnum \<Rightarrow> jsnum" where
  "Math_min a b =
     (if a = NaN \<or> b = NaN then NaN
      else if js_ge a b \<and> js_ge b a then (if negative a then a else b)
      else if js_ge a b then b else a)"

definition Math_max :: "jsnum \<Rightarrow> jsnum \<Rightarrow> jsnum" where
  "Math_max a b =
     (if a = NaN \<or> b = NaN then NaN
      else if js_ge a b \<and> js_ge b a then (if negative a then b else a)
      else if js_ge a b then a else b)"

section \<open>Data model\<close>

datatype QuestType = main | side | daily | weekly | event | achievement

datatype QuestCategory = academic | attendance | social | club | wellness | special

datatype QuestDifficulty = easy | medium | hard | legendary

datatype QuestStatus = locked | available | in_progress | completed | claimed | expired

text \<open>
  \<^verbatim>\<open>QuestProgress\<close>. The optional \<^verbatim>\<open>milestones\<close> array is never read or written
  by the store (the spread copies it) and is left out.
\<close>

record QuestProgress =
  current :: jsnum
  target :: jsnum
  percentage :: jsnum

text \<open>\<^verbatim>\<open>QuestRewards\<close>, without the optional \<^verbatim>\<open>items\<close> and \<^verbatim>\<open>badge\<close>.\<close>

record QuestRewards =
  xp :: jsnum
  coins :: jsnum
  gems :: "jsnum option"

text \<open>
  \<^verbatim>\<open>DashboardQuest\<close>: the picked fields of \<^verbatim>\<open>Quest\<close> and the two that the
  dashboard adds. An optional field is an \<open>option\<close>.
\<close>

record DashboardQuest =
  quest_id :: string
  title :: string
  qtype :: QuestType
  category :: QuestCategory
  difficulty :: QuestDifficulty
  status :: QuestStatus
  progress :: QuestProgress
  rewards :: QuestRewards
  deadline :: "string option"
  icon :: string
  color :: string
  isExpiringSoon :: "bool option"
  timeRemaining :: "string option"

datatype RankTier = bronze | silver | gold | platinum | diamond | master | legend

record UserRank =
  rank_id :: string
  rank_name :: string
  tier :: RankTier
  rank_icon :: string
  rank_color :: string
  minXP :: jsnum

record UserStats =
  level :: jsnum
  currentXP :: jsnum
  requiredXP :: jsnum
  totalXP :: jsnum
  stat_coins :: jsnum
  stat_gems :: jsnum
  rank :: UserRank
  rankPosition :: jsnum
  streakDays :: jsnum
  achievementCount :: jsnum
  questsCompleted :: jsnum
  attendanceRate :: jsnum

record DashboardAvatar =
  url :: string
  frameId :: "string option"
  frameColor :: "string option"
  isAnimated :: "bool option"

record DashboardClan =
  clan_id :: string
  clan_name :: string
  emblem :: string
  clan_color :: string

record DashboardUser =
  user_id :: string
  studentId :: string
  displayName :: string
  firstName :: string
  lastName :: string
  email :: string
  avatar :: DashboardAvatar
  stats :: UserStats
  user_title :: "string option"
  clan :: "DashboardClan option"

text \<open>
  \<^verbatim>\<open>DashboardFilters\<close> is an object whose two keys, \<^verbatim>\<open>questType\<close> and
  \<^verbatim>\<open>timeRange\<close>, are both optional: a key is absent, or present with a value,
  and that value may be \<^verbatim>\<open>undefined\<close>.
\<close>

datatype TimeRange = today | week | month

datatype FilterValue = Undefined | QuestTypeValue QuestType | TimeRangeValue TimeRange

type_synonym DashboardFilters = "string \<rightharpoonup> FilterValue"

text \<open>
  The data half of \<^verbatim>\<open>DashboardState\<close> (the actions are the functions below).
  The store never looks inside an activity, a class, a leaderboard entry, a
  badge or the weekly statistics, so their types are parameters: \<open>'a\<close>, \<open>'c\<close>,
  \<open>'l\<close>, \<open>'b\<close>, \<open>'w\<close>. The type \<open>'q\<close> of the entries of \<^verbatim>\<open>activeQuests\<close> is
  \<^typ>\<open>DashboardQuest\<close> where quests are values, and an address where the identity
  of the quest objects matters.
\<close>

record ('q, 'a, 'c, 'l, 'b, 'w) DashboardState =
  user :: "DashboardUser option"
  activeQuests :: "'q list"
  activities :: "'a list"
  upcomingClasses :: "'c list"
  leaderboard :: "'l list"
  featuredBadges :: "'b list"
  weeklyStats :: "'w option"
  isLoading :: bool
  isRefreshing :: bool
  error :: "string option"
  filters :: DashboardFilters
  showCompletedQuests :: bool
  activityLimit :: jsnum
  pendingXPGain :: jsnum
  pendingCoinsGain :: jsnum

definition initialState :: "('q, 'a, 'c, 'l, 'b, 'w) DashboardState" where
  "initialState =
     \<lparr> user = None, activeQuests = [], activities = [], upcomingClasses = [],
       leaderboard = [], featuredBadges = [], weeklyStats = None,
       isLoading = False, isRefreshing = False, error = None,
       filters = Map.empty, showCompletedQuests = False, activityLimit = Fin 5,
       pendingXPGain = Fin 0, pendingCoinsGain = Fin 0 \<rparr>"

section \<open>Store actions\<close>

text \<open>
  Each action calls \<^verbatim>\<open>set\<close> with a partial state (or a function of the state
  that returns one), which the store merges into the current state: the keys of
  the partial state are replaced, all others are kept. An action is therefore a
  function from the state to the state, written as a record update.
\<close>

definition setLoading ::
  "bool \<Rightarrow> ('q, 'a, 'c, 'l, 'b, 'w) DashboardState \<Rightarrow> ('q, 'a, 'c, 'l, 'b, 'w) DashboardState" where
  "setLoading loading state = state\<lparr>isLoading := loading\<rparr>"

definition setRefreshing ::
  "bool \<Rightarrow> ('q, 'a, 'c, 'l, 'b, 'w) DashboardState \<Rightarrow> ('q, 'a, 'c, 'l, 'b, 'w) DashboardState" where
  "setRefreshing refreshing state = state\<lparr>isRefreshing := refreshing\<rparr>"

definition setError ::
  "string option \<Rightarrow> ('q, 'a, 'c, 'l, 'b, 'w) DashboardState \<Rightarrow> ('q, 'a, 'c, 'l, 'b, 'w) DashboardState" where
  "setError err state = state\<lparr>error := err\<rparr>"

text \<open>\<^verbatim>\<open>setFilters\<close>: \<^verbatim>\<open>{ ...state.filters, ...newFilters }\<close>.\<close>

definition setFilters ::
  "DashboardFilters \<Rightarrow> ('q, 'a, 'c, 'l, 'b, 'w) DashboardState \<Rightarrow> ('q, 'a, 'c, 'l, 'b, 'w) DashboardState" where
  "setFilters newFilters state = state\<lparr>filters := filters state ++ newFilters\<rparr>"

subsection \<open>Quest progress\<close>

text \<open>
  The object literal that \<^verbatim>\<open>updateQuestProgress\<close> builds for a quest whose id
  matches: a copy of the quest with a new \<^verbatim>\<open>progress\<close> (itself a copy with
  \<^verbatim>\<open>current\<close> and \<^verbatim>\<open>percentage\<close> replaced) and a new \<^verbatim>\<open>status\<close>.
\<close>

definition updatedQuest :: "jsnum \<Rightarrow> DashboardQuest \<Rightarrow> DashboardQuest" where
  "updatedQuest newProgress quest =
     quest\<lparr> progress := (progress quest)
               \<lparr> current := newProgress,
                 percentage :=
                   Math_min (js_mul (js_div newProgress (target (progress quest))) (Fin 100))
                            (Fin 100) \<rparr>,
             status := (if js_ge newProgress (target (progress quest))
                        then completed else status quest) \<rparr>"

text \<open>
  \<^verbatim>\<open>updateQuestProgress\<close> maps over \<^verbatim>\<open>activeQuests\<close>; the callback returns the
  new object for a quest with the given id and the quest itself otherwise.
\<close>

definition updateQuestProgress ::
  "string \<Rightarrow> jsnum \<Rightarrow> (DashboardQuest, 'a, 'c, 'l, 'b, 'w) DashboardState
     \<Rightarrow> (DashboardQuest, 'a, 'c, 'l, 'b, 'w) DashboardState" where
  "updateQuestProgress questId newProgress state =
     state\<lparr> activeQuests :=
       map (\<lambda>quest. if quest_id quest = questId then updatedQuest newProgress quest else quest)
         (activeQuests state) \<rparr>"

text \<open>
  The same action with the identity of the quest objects made explicit. Quest
  objects live in a heap, a list indexed by address; \<^verbatim>\<open>activeQuests\<close> is an
  array of addresses. An object literal allocates a new object at the end of the
  heap and no existing object is written to. \<^verbatim>\<open>map\<close> visits the array from left
  to right and returns a new array.
\<close>

type_synonym ref = nat

type_synonym heap = "DashboardQuest list"

fun map_quest_refs :: "string \<Rightarrow> jsnum \<Rightarrow> heap \<Rightarrow> ref list \<Rightarrow> heap \<times> ref list" where
  "map_quest_refs questId newProgress h [] = (h, [])"
| "map_quest_refs questId newProgress h (r # rs) =
     (if quest_id (h ! r) = questId
      then (let (h', rs') =
                  map_quest_refs questId newProgress (h @ [updatedQuest newProgress (h ! r)]) rs
            in (h', length h # rs'))
      else (let (h', rs') = map_quest_refs questId newProgress h rs
            in (h', r # rs')))"

definition updateQuestProgress_refs ::
  "string \<Rightarrow> jsnum \<Rightarrow> heap \<times> (ref, 'a, 'c, 'l, 'b, 'w) DashboardState
     \<Rightarrow> heap \<times> (ref, 'a, 'c, 'l, 'b, 'w) DashboardState" where
  "updateQuestProgress_refs questId newProgress hs =
     (let (h, state) = hs;
          (h', rs') = map_quest_refs questId newProgress h (activeQuests state)
      in (h', state\<lparr>activeQuests := rs'\<rparr>))"

text \<open>
  The addresses of a state all point into the heap, as every reference of a
  running program does.
\<close>

definition refs_ok :: "heap \<Rightarrow> ref list \<Rightarrow> bool" where
  "refs_ok h rs = list_all (\<lambda>r. r < length h) rs"

subsection \<open>Activities and pending rewards\<close>

text \<open>\<^verbatim>\<open>addActivity\<close>: \<^verbatim>\<open>[activity, ...state.activities].slice(0, 20)\<close>.\<close>

definition addActivity ::
  "'a \<Rightarrow> ('q, 'a, 'c, 'l, 'b, 'w) DashboardState \<Rightarrow> ('q, 'a, 'c, 'l, 'b, 'w) DashboardState" where
  "addActivity activity state = state\<lparr>activities := take 20 (activity # activities state)\<rparr>"

definition addPendingXP ::
  "jsnum \<Rightarrow> ('q, 'a, 'c, 'l, 'b, 'w) DashboardState \<Rightarrow> ('q, 'a, 'c, 'l, 'b, 'w) DashboardState" where
  "addPendingXP amount state = state\<lparr>pendingXPGain := js_add (pendingXPGain state) amount\<rparr>"

definition addPendingCoins ::
  "jsnum \<Rightarrow> ('q, 'a, 'c, 'l, 'b, 'w) DashboardState \<Rightarrow> ('q, 'a, 'c, 'l, 'b, 'w) DashboardState" where
  "addPendingCoins amount state =
     state\<lparr>pendingCoinsGain := js_add (pendingCoinsGain state) amount\<rparr>"

definition clearPendingRewards ::
  "('q, 'a, 'c, 'l, 'b, 'w) DashboardState \<Rightarrow> ('q, 'a, 'c, 'l, 'b, 'w) DashboardState" where
  "clearPendingRewards state = state\<lparr>pendingXPGain := Fin 0, pendingCoinsGain := Fin 0\<rparr>"

subsection \<open>Loading and refreshing\<close>

text \<open>
  The constants of the mock-data module that the two loaders write into the
  state, as one parameter.
\<close>

record ('q, 'a, 'c, 'l, 'b, 'w) MockData =
  mockUser :: DashboardUser
  mockActiveQuests :: "'q list"
  mockActivities :: "'a list"
  mockUpcomingClasses :: "'c list"
  mockLeaderboard :: "'l list"
  mockFeaturedBadges :: "'b list"
  mockWeeklyStats :: 'w

text \<open>
  What a \<^verbatim>\<open>catch\<close> clause can receive: an \<^verbatim>\<open>Error\<close> object with its message, or
  any other value. An awaited promise resolves or rejects with such a value; the
  promise that an \<^verbatim>\<open>async\<close> function returns is fulfilled or rejected.
\<close>

datatype thrown = ErrorObject string | OtherValue

datatype awaited = Resolved | Rejected thrown

datatype promise = Fulfilled | RejectedWith thrown

text \<open>
  \<^verbatim>\<open>fetchDashboardData\<close> runs in two steps. The first runs when the action is
  called, up to the \<^verbatim>\<open>await\<close>. The second runs when the awaited promise settles:
  the rest of the \<^verbatim>\<open>try\<close> block if it resolved, the \<^verbatim>\<open>catch\<close> block if it
  rejected. Other actions may run in between. Neither block rethrows, so the
  promise of the action is fulfilled either way. (The promise awaited in the
  source is resolved by a timer and stands for the real load; how it settles is
  the parameter \<open>result\<close>.)
\<close>

definition fetchDashboardData_start ::
  "('q, 'a, 'c, 'l, 'b, 'w) DashboardState \<Rightarrow> ('q, 'a, 'c, 'l, 'b, 'w) DashboardState" where
  "fetchDashboardData_start state = setError None (setLoading True state)"

definition fetchDashboardData_resume ::
  "('q, 'a, 'c, 'l, 'b, 'w) MockData \<Rightarrow> awaited \<Rightarrow> ('q, 'a, 'c, 'l, 'b, 'w) DashboardState
     \<Rightarrow> promise \<times> ('q, 'a, 'c, 'l, 'b, 'w) DashboardState" where
  "fetchDashboardData_resume mock result state =
     (case result of
        Resolved \<Rightarrow>
          (Fulfilled,
           state\<lparr> user := Some (mockUser mock),
                  activeQuests := mockActiveQuests mock,
                  activities := mockActivities mock,
                  upcomingClasses := mockUpcomingClasses mock,
                  leaderboard := mockLeaderboard mock,
                  featuredBadges := mockFeaturedBadges mock,
                  weeklyStats := Some (mockWeeklyStats mock),
                  isLoading := False \<rparr>)
      | Rejected err \<Rightarrow>
          (let errorMessage =
                 (case err of ErrorObject message \<Rightarrow> message
                  | OtherValue \<Rightarrow> ''Failed to fetch dashboard data'')
           in (Fulfilled, state\<lparr>error := Some errorMessage, isLoading := False\<rparr>)))"

text \<open>The whole action when nothing else runs while it waits.\<close>

definition fetchDashboardData ::
  "('q, 'a, 'c, 'l, 'b, 'w) MockData \<Rightarrow> awaited \<Rightarrow> ('q, 'a, 'c, 'l, 'b, 'w) DashboardState
     \<Rightarrow> promise \<times> ('q, 'a, 'c, 'l, 'b, 'w) DashboardState" where
  "fetchDashboardData mock result state =
     fetchDashboardData_resume mock result (fetchDashboardData_start state)"

text \<open>
  \<^verbatim>\<open>refreshDashboard\<close>, in the same two steps. \<open>draw\<close> is the value of
  \<^verbatim>\<open>Math.floor(Math.random() * 50)\<close>.
\<close>

definition refreshDashboard_start ::
  "('q, 'a, 'c, 'l, 'b, 'w) DashboardState \<Rightarrow> ('q, 'a, 'c, 'l, 'b, 'w) DashboardState" where
  "refreshDashboard_start state = setError None (setRefreshing True state)"

definition refreshDashboard_resume ::
  "('q, 'a, 'c, 'l, 'b, 'w) MockData \<Rightarrow> jsnum \<Rightarrow> awaited
     \<Rightarrow> ('q, 'a, 'c, 'l, 'b, 'w) DashboardState
     \<Rightarrow> promise \<times> ('q, 'a, 'c, 'l, 'b, 'w) DashboardState" where
  "refreshDashboard_resume mock draw result state =
     (case result of
        Resolved \<Rightarrow>
          (let updatedStats =
                 (stats (mockUser mock))
                   \<lparr>currentXP := js_add (currentXP (stats (mockUser mock))) draw\<rparr>
           in (Fulfilled,
               state\<lparr> user := Some ((mockUser mock)\<lparr>stats := updatedStats\<rparr>),
                      activeQuests := mockActiveQuests mock,
                      activities := mockActivities mock,
                      upcomingClasses := mockUpcomingClasses mock,
                      isRefreshing := False \<rparr>))
      | Rejected err \<Rightarrow>
          (let errorMessage =
                 (case err of ErrorObject message \<Rightarrow> message
                  | OtherValue \<Rightarrow> ''Failed to refresh dashboard'')
           in (Fulfilled, state\<lparr>error := Some errorMessage, isRefreshing := False\<rparr>)))"

subsection \<open>The timers of the two loaders\<close>

text \<open>
  Both loaders await a promise that a timer resolves: 800 ms for
  \<^verbatim>\<open>fetchDashboardData\<close>, 500 ms for \<^verbatim>\<open>refreshDashboard\<close>. JavaScript runs one
  piece of code at a time, so a run of the program is a sequence of steps: a call
  of an action, or time passing, during which the timers that fall due fire in
  the order of their due times (and of their creation for equal due times), each
  resuming the loader that waits for it. A timer's promise always resolves. The
  task of a refresh carries the draw that its resumed half will make.
\<close>

datatype task = FetchTask | RefreshTask jsnum

record ('q, 'a, 'c, 'l, 'b, 'w) world =
  store :: "('q, 'a, 'c, 'l, 'b, 'w) DashboardState"
  timers :: "(nat \<times> task) list"
  clock :: nat

fun enqueue :: "nat \<times> task \<Rightarrow> (nat \<times> task) list \<Rightarrow> (nat \<times> task) list" where
  "enqueue x [] = [x]"
| "enqueue x (y # ys) = (if fst x < fst y then x # y # ys else y # enqueue x ys)"

definition setTimeout ::
  "nat \<Rightarrow> task \<Rightarrow> ('q, 'a, 'c, 'l, 'b, 'w) world \<Rightarrow> ('q, 'a, 'c, 'l, 'b, 'w) world" where
  "setTimeout delay t w = w\<lparr>timers := enqueue (clock w + delay, t) (timers w)\<rparr>"

definition call_fetchDashboardData ::
  "('q, 'a, 'c, 'l, 'b, 'w) world \<Rightarrow> ('q, 'a, 'c, 'l, 'b, 'w) world" where
  "call_fetchDashboardData w =
     setTimeout 800 FetchTask (w\<lparr>store := fetchDashboardData_start (store w)\<rparr>)"

definition call_refreshDashboard ::
  "jsnum \<Rightarrow> ('q, 'a, 'c, 'l, 'b, 'w) world \<Rightarrow> ('q, 'a, 'c, 'l, 'b, 'w) world" where
  "call_refreshDashboard draw w =
     setTimeout 500 (RefreshTask draw) (w\<lparr>store := refreshDashboard_start (store w)\<rparr>)"

fun run_task ::
  "('q, 'a, 'c, 'l, 'b, 'w) MockData \<Rightarrow> ('q, 'a, 'c, 'l, 'b, 'w) DashboardState \<Rightarrow> nat \<times> task
     \<Rightarrow> ('q, 'a, 'c, 'l, 'b, 'w) DashboardState" where
  "run_task mock state (due, FetchTask) = snd (fetchDashboardData_resume mock Resolved state)"
| "run_task mock state (due, RefreshTask draw) =
     snd (refreshDashboard_resume mock draw Resolved state)"

definition elapse ::
  "('q, 'a, 'c, 'l, 'b, 'w) MockData \<Rightarrow> nat \<Rightarrow> ('q, 'a, 'c, 'l, 'b, 'w) world
     \<Rightarrow> ('q, 'a, 'c, 'l, 'b, 'w) world" where
  "elapse mock d w =
     (let now = clock w + d
      in \<lparr> store = foldl (run_task mock) (store w) (takeWhile (\<lambda>x. fst x \<le> now) (timers w)),
           timers = dropWhile (\<lambda>x. fst x \<le> now) (timers w),
           clock = now \<rparr>)"

section \<open>Fixtures\<close>

text \<open>
  The mock user and two of the mock quests, as the mock-data module defines them
  (the two emoji icons are written as words).
\<close>

definition mockUserRank :: UserRank where
  "mockUserRank =
     \<lparr> rank_id = ''rank_gold_2'', rank_name = ''Gold Scholar'', tier = gold,
       rank_icon = ''trophy'', rank_color = ''#fbbf24'', minXP = Fin 5000 \<rparr>"

definition mockUserStats :: UserStats where
  "mockUserStats =
     \<lparr> level = Fin 24, currentXP = Fin 2450, requiredXP = Fin 3000, totalXP = Fin 24450,
       stat_coins = Fin 1850, stat_gems = Fin 45, rank = mockUserRank,
       rankPosition = Fin 127, streakDays = Fin 12, achievementCount = Fin 34,
       questsCompleted = Fin 156, attendanceRate = Fin (189 / 2) \<rparr>"

definition mock_user :: DashboardUser where
  "mock_user =
     \<lparr> user_id = ''user_001'', studentId = ''STU2024001'', displayName = ''Alex Chen'',
       firstName = ''Alex'', lastName = ''Chen'', email = ''alex.chen@university.edu'',
       avatar = \<lparr> url = ''https://api.dicebear.com/7.x/avataaars/svg?seed=Alex&backgroundColor=6366f1'',
                  frameId = Some ''frame_gold'', frameColor = Some ''#fbbf24'',
                  isAnimated = Some False \<rparr>,
       stats = mockUserStats,
       user_title = Some ''Code Warrior'',
       clan = Some \<lparr> clan_id = ''clan_001'', clan_name = ''Binary Dragons'',
                     emblem = ''dragon'', clan_color = ''#8b5cf6'' \<rparr> \<rparr>"

text \<open>
  \<^verbatim>\<open>quest_001\<close>; its deadline is computed from the time of loading, here a fixed
  string.
\<close>

definition quest_001 :: DashboardQuest where
  "quest_001 =
     \<lparr> quest_id = ''quest_001'', title = ''Perfect Attendance Week'', qtype = weekly,
       category = attendance, difficulty = medium, status = in_progress,
       progress = \<lparr> current = Fin 4, target = Fin 5, percentage = Fin 80 \<rparr>,
       rewards = \<lparr> xp = Fin 500, coins = Fin 200, gems = None \<rparr>,
       deadline = Some ''2026-01-04T00:00:00.000Z'', icon = ''CalendarCheck'',
       color = ''#10b981'', isExpiringSoon = Some False,
       timeRemaining = Some ''3 days left'' \<rparr>"

definition quest_004 :: DashboardQuest where
  "quest_004 =
     \<lparr> quest_id = ''quest_004'', title = ''Early Bird'', qtype = daily,
       category = attendance, difficulty = easy, status = in_progress,
       progress = \<lparr> current = Fin 0, target = Fin 1, percentage = Fin 0 \<rparr>,
       rewards = \<lparr> xp = Fin 100, coins = Fin 50, gems = None \<rparr>,
       deadline = Some ''2026-01-01T08:00:00.000Z'', icon = ''Sunrise'',
       color = ''#f59e0b'', isExpiringSoon = Some True,
       timeRemaining = Some ''8 hours left'' \<rparr>"

definition demo_mock :: "(DashboardQuest, string, string, string, string, string) MockData" where
  "demo_mock =
     \<lparr> mockUser = mock_user, mockActiveQuests = [quest_001, quest_004],
       mockActivities = [''activity_001''], mockUpcomingClasses = [''class_001''],
       mockLeaderboard = [''user_top_1''], mockFeaturedBadges = [''badge_001''],
       mockWeeklyStats = ''weekly'' \<rparr>"

text \<open>
  A store holding the two quests, the same store with the quests behind
  addresses 0 and 1, and a fresh store with no timer pending.
\<close>

definition demo_state ::
  "(DashboardQuest, string, string, string, string, string) DashboardState" where
  "demo_state = initialState\<lparr>activeQuests := [quest_001, quest_004]\<rparr>"

definition demo_refs_state :: "(ref, string, string, string, string, string) DashboardState" where
  "demo_refs_state = initialState\<lparr>activeQuests := [0, 1]\<rparr>"

definition demo_world :: "(DashboardQuest, string, string, string, string, string) world" where
  "demo_world = \<lparr> store = initialState, timers = [], clock = 0 \<rparr>"

section \<open>The percentage as the specification words it\<close>

text \<open>
  The specification's formula for a quest's percentage, computed with the
  program's own arithmetic: \<open>clamp(current / target * 100, 0, 100)\<close>, and \<open>0\<close>
  when \<^verbatim>\<open>target == 0\<close>. It is compared below with what \<^const>\<open>updatedQuest\<close>
  computes.
\<close>

definition spec_percentage :: "jsnum \<Rightarrow> jsnum \<Rightarrow> jsnum" where
  "spec_percentage cur tgt =
     (if is_zero tgt then Fin 0
      else Math_min (Math_max (js_mul (js_div cur tgt) (Fin 100)) (Fin 0)) (Fin 100))"

section \<open>Arithmetic on doubles\<close>

lemma floor_rat_numeral [simp]:
  "\<lfloor>(numeral a :: rat) / numeral b\<rfloor> = numeral a div numeral b"
  using floor_divide_of_int_eq [of "numeral a" "numeral b", where ?'a = rat] by simp

lemma ceiling_rat_numeral [simp]:
  "\<lceil>(numeral a :: rat) / numeral b\<rceil> = - (- numeral a div numeral b)"
  using floor_divide_of_int_eq [of "- numeral a" "numeral b", where ?'a = rat]
  by (simp add: ceiling_def)

lemmas js_eval =
  round_double_def round_at_def pack_double_def floor_log2_def pow2_def
  round_half_even_def signed_inf_def signed_zero_def bit_length.simps frac_def
  js_add_def js_mul_def js_div_def js_ge_def Math_min_def Math_max_def is_double_def

text \<open>
  The rounding at work: a tenth and a third are not doubles, the sum of the
  doubles nearest to 0.1 and 0.2 is 0.30000000000000004, an odd integer above
  \<open>2^53\<close> is lost, and a division by the negative zero has the opposite sign.
\<close>

lemma round_double_examples:
  "round_double (1 / 10) = Fin (3602879701896397 / 2 ^ 55)"
  "round_double (3 / 10) = Fin (5404319552844595 / 2 ^ 54)"
  "js_add (round_double (1 / 10)) (round_double (1 / 5)) = Fin (5404319552844596 / 2 ^ 54)"
  "js_div (Fin 1) (Fin 3) = Fin (6004799503160661 / 2 ^ 54)"
  "js_add (Fin (2 ^ 53)) (Fin 1) = Fin (2 ^ 53)"
  "is_double (Fin (189 / 2))"
  "\<not> is_double (Fin (1 / 10))"
  by (simp_all add: js_eval)

lemma signed_zero_examples:
  "js_div (Fin 3) (Fin 0) = PosInf"
  "js_div (Fin 3) NegZero = NegInf"
  "js_div (Fin 0) NegZero = NaN"
  "js_add (Fin 5) (Fin (- 5)) = Fin 0"
  "js_add NegZero NegZero = NegZero"
  "Math_min (Fin 0) NegZero = NegZero"
  "Math_max NegZero (Fin 0) = Fin 0"
  "js_ge NegZero (Fin 0)"
  by (simp_all add: js_eval)

lemma js_add_overflow: "js_add (Fin (10 ^ 308)) (Fin (10 ^ 308)) = PosInf"
  by (simp add: js_eval)

lemma pow2_pos: "0 < pow2 k"
  by (simp add: pow2_def)

lemma round_half_even_nonneg: "0 \<le> q \<Longrightarrow> 0 \<le> round_half_even q"
  by (simp add: round_half_even_def)

text \<open>Rounding a positive number gives a positive double, the positive zero or infinity.\<close>

lemma round_double_pos:
  assumes "0 < y"
  shows "\<not> negative (round_double y) \<and> round_double y \<noteq> NaN"
proof -
  have "0 \<le> round_half_even (\<bar>y\<bar> / pow2 k)" for k
    using assms pow2_pos [of k] by (intro round_half_even_nonneg) simp
  then have "0 \<le> rat_of_int (round_half_even (\<bar>y\<bar> / pow2 k)) * pow2 k" for k
    using pow2_pos [of k] by simp
  then show ?thesis
    using assms
    by (simp add: round_double_def round_at_def pack_double_def signed_inf_def signed_zero_def
        not_less)
qed

lemma Math_max_zero:
  "\<not> negative v \<Longrightarrow> v \<noteq> NaN \<Longrightarrow> Math_max v (Fin 0) = v"
  by (cases v) (auto simp: Math_max_def js_ge_def)

lemma percentage_value_nonneg:
  assumes "0 \<le> x" and "0 < t"
  shows "\<not> negative (js_mul (js_div (Fin x) (Fin t)) (Fin 100))
       \<and> js_mul (js_div (Fin x) (Fin t)) (Fin 100) \<noteq> NaN"
proof (cases "x = 0")
  case True
  then show ?thesis using assms by (simp add: js_div_def js_mul_def signed_zero_def)
next
  case False
  then have "0 < x / t" using assms by simp
  from round_double_pos [OF this]
  have w: "\<not> negative (round_double (x / t))" "round_double (x / t) \<noteq> NaN" by simp_all
  have d: "js_div (Fin x) (Fin t) = round_double (x / t)"
    using False assms by (simp add: js_div_def)
  show ?thesis
  proof (cases "round_double (x / t)")
    case (Fin r)
    then have r: "0 \<le> r" using w by simp
    show ?thesis
    proof (cases "r = 0")
      case True
      then show ?thesis unfolding d Fin by (simp add: js_mul_def signed_zero_def)
    next
      case False
      then have "0 < r * 100" using r by simp
      from round_double_pos [OF this] False show ?thesis
        unfolding d Fin by (simp add: js_mul_def)
    qed
  next
    case PosInf
    then show ?thesis unfolding d by (simp add: js_mul_def signed_inf_def)
  qed (use w in simp_all)
qed

lemma percentage_zero_target:
  "is_zero z \<Longrightarrow>
   Math_min (js_mul (js_div p z) (Fin 100)) (Fin 100) =
     (if p = NaN \<or> is_zero p then NaN
      else if negative p = negative z then Fin 100 else NegInf)"
  by (cases p; cases z)
    (auto simp: js_div_def js_mul_def Math_min_def js_ge_def signed_inf_def)

lemma js_add_from_zero:
  assumes "is_zero z" and "is_double a"
  shows "js_add (js_add z a) b = js_add a b
       \<or> (js_add (js_add z a) b = Fin 0 \<and> js_add a b = NegZero)"
proof (cases "a = NegZero")
  case a: True
  have za: "js_add z a = z"
    using assms(1) a by (cases z) (auto simp: js_add_def signed_zero_def)
  show ?thesis
  proof (cases "z = NegZero")
    case True
    then show ?thesis using za a by simp
  next
    case False
    then have z: "z = Fin 0" using assms(1) by (cases z) simp_all
    show ?thesis
      unfolding za unfolding z a
      by (cases b) (auto simp: js_add_def signed_zero_def)
  qed
next
  case False
  have "js_add z a = a"
    using assms False
    by (cases z; cases a) (auto simp: js_add_def signed_zero_def is_double_def)
  then show ?thesis by simp
qed

section \<open>Quest progress: the targeted quest\<close>

lemma updateQuestProgress_nth:
  "i < length (activeQuests state) \<Longrightarrow>
   activeQuests (updateQuestProgress questId p state) ! i =
     (if quest_id (activeQuests state ! i) = questId
      then updatedQuest p (activeQuests state ! i) else activeQuests state ! i)"
  by (simp add: updateQuestProgress_def)

lemma length_updateQuestProgress:
  "length (activeQuests (updateQuestProgress questId p state)) = length (activeQuests state)"
  by (simp add: updateQuestProgress_def)

lemma status_updatedQuest:
  "status (updatedQuest p q) = (if js_ge p (target (progress q)) then completed else status q)"
  by (simp add: updatedQuest_def)

text \<open>
  C1, as the code has it. After \<open>updateQuestProgress questId p\<close>, a quest of
  \<^verbatim>\<open>activeQuests\<close> with that id has the percentage
  \<^verbatim>\<open>Math.min(p / target * 100, 100)\<close>, in the arithmetic of doubles: only the
  upper bound is cut. Where \<open>p\<close> is a finite number that is not negative and the
  target a finite positive one, this is the specification's clamp of
  \<open>p / target * 100\<close> to \<open>[0, 100]\<close>, computed in the same arithmetic. There is
  no guard for a zero target: with a target that is a zero of either sign, the
  percentage is NaN when \<open>p\<close> is NaN or a zero, and otherwise 100 when \<open>p\<close> and
  the target have the same sign and -Infinity when they have opposite signs;
  never the 0 of the specification.
\<close>

theorem percentage_after_update:
  "(i < length (activeQuests state) \<and> quest_id (activeQuests state ! i) = questId \<longrightarrow>
      percentage (progress (activeQuests (updateQuestProgress questId p state) ! i)) =
        Math_min (js_mul (js_div p (target (progress (activeQuests state ! i)))) (Fin 100))
          (Fin 100))
   \<and> (i < length (activeQuests state) \<and> quest_id (activeQuests state ! i) = questId
        \<and> p = Fin x \<and> target (progress (activeQuests state ! i)) = Fin t \<and> 0 \<le> x \<and> 0 < t \<longrightarrow>
      percentage (progress (activeQuests (updateQuestProgress questId p state) ! i)) =
        spec_percentage p (target (progress (activeQuests state ! i))))
   \<and> (j < length (activeQuests state0) \<and> quest_id (activeQuests state0 ! j) = questId0
        \<and> is_zero (target (progress (activeQuests state0 ! j))) \<longrightarrow>
      percentage (progress (activeQuests (updateQuestProgress questId0 p0 state0) ! j)) =
        (if p0 = NaN \<or> is_zero p0 then NaN
         else if negative p0 = negative (target (progress (activeQuests state0 ! j)))
         then Fin 100 else NegInf))"
proof -
  have a: "percentage (progress (updatedQuest v quest)) =
      Math_min (js_mul (js_div v (target (progress quest))) (Fin 100)) (Fin 100)" for v quest
    by (simp add: updatedQuest_def)
  have c1: "percentage (progress (activeQuests (updateQuestProgress questId p state) ! i)) =
      Math_min (js_mul (js_div p (target (progress (activeQuests state ! i)))) (Fin 100))
        (Fin 100)"
    if "i < length (activeQuests state)" "quest_id (activeQuests state ! i) = questId"
    using that a by (simp add: updateQuestProgress_nth)
  have c2: "percentage (progress (activeQuests (updateQuestProgress questId p state) ! i)) =
      spec_percentage p (target (progress (activeQuests state ! i)))"
    if "i < length (activeQuests state)" "quest_id (activeQuests state ! i) = questId"
      "p = Fin x" "target (progress (activeQuests state ! i)) = Fin t" "0 \<le> x" "0 < t"
  proof -
    have "Math_max (js_mul (js_div (Fin x) (Fin t)) (Fin 100)) (Fin 0) =
        js_mul (js_div (Fin x) (Fin t)) (Fin 100)"
      using percentage_value_nonneg [OF that(5,6)] by (simp add: Math_max_zero)
    then have "spec_percentage (Fin x) (Fin t) =
        Math_min (js_mul (js_div (Fin x) (Fin t)) (Fin 100)) (Fin 100)"
      using that(6) by (simp add: spec_percentage_def)
    then show ?thesis
      using c1 [OF that(1,2)] that(3,4) by simp
  qed
  have c3: "percentage (progress (activeQuests (updateQuestProgress questId0 p0 state0) ! j)) =
      (if p0 = NaN \<or> is_zero p0 then NaN
       else if negative p0 = negative (target (progress (activeQuests state0 ! j)))
       then Fin 100 else NegInf)"
    if "j < length (activeQuests state0)" "quest_id (activeQuests state0 ! j) = questId0"
      "is_zero (target (progress (activeQuests state0 ! j)))"
  proof -
    have "activeQuests (updateQuestProgress questId0 p0 state0) ! j =
        updatedQuest p0 (activeQuests state0 ! j)"
      using that(1,2) by (simp add: updateQuestProgress_nth)
    then show ?thesis
      unfolding a using that(3) by (simp only: a percentage_zero_target)
  qed
  from c1 c2 c3 show ?thesis by blast
qed

text \<open>
  Scenario A of the specification, quest 4 of 5 updated to 5, and a quest whose
  target is the negative zero updated to 3.
\<close>

theorem percentage_scenario_A:
  "0 < length (activeQuests demo_state)
   \<and> quest_id (activeQuests demo_state ! 0) = ''quest_001''
   \<and> target (progress (activeQuests demo_state ! 0)) = Fin 5
   \<and> percentage (progress (activeQuests (updateQuestProgress ''quest_001'' (Fin 5) demo_state) ! 0))
     = Fin 100
   \<and> spec_percentage (Fin 5) (Fin 5) = Fin 100
   \<and> is_zero (target (progress (activeQuests (demo_state\<lparr>activeQuests :=
        [quest_001\<lparr>progress := \<lparr>current = Fin 0, target = NegZero, percentage = Fin 0\<rparr>\<rparr>]\<rparr>)
        ! 0)))
   \<and> percentage (progress (activeQuests
      (updateQuestProgress ''quest_001'' (Fin 3)
        (demo_state\<lparr>activeQuests :=
           [quest_001\<lparr>progress := \<lparr>current = Fin 0, target = NegZero, percentage = Fin 0\<rparr>\<rparr>]\<rparr>))
        ! 0)) = NegInf"
  using percentage_after_update [of 0 demo_state "''quest_001''" "Fin 5" 5 5 0
    "demo_state\<lparr>activeQuests :=
       [quest_001\<lparr>progress := \<lparr>current = Fin 0, target = NegZero, percentage = Fin 0\<rparr>\<rparr>]\<rparr>"
    "''quest_001''" "Fin 3"]
  by (simp add: demo_state_def quest_001_def spec_percentage_def js_eval)

text \<open>
  C1 as the specification states it fails twice. Updating \<^verbatim>\<open>quest_001\<close> (target
  5) to \<open>-5\<close> stores the percentage \<open>-100\<close>, where the clamp of
  \<open>current / target * 100\<close> is 0. Updating a quest whose target is 0 to 3 stores
  the percentage 100, where the specification says 0.
\<close>

theorem percentage_not_clamped_below:
  "percentage (progress (activeQuests
      (updateQuestProgress ''quest_001'' (Fin (-5)) demo_state) ! 0)) = Fin (-100)
   \<and> current (progress (activeQuests
      (updateQuestProgress ''quest_001'' (Fin (-5)) demo_state) ! 0)) = Fin (-5)
   \<and> target (progress (activeQuests
      (updateQuestProgress ''quest_001'' (Fin (-5)) demo_state) ! 0)) = Fin 5
   \<and> spec_percentage (Fin (-5)) (Fin 5) = Fin 0
   \<and> percentage (progress (activeQuests
      (updateQuestProgress ''quest_001'' (Fin 3)
        (demo_state\<lparr>activeQuests :=
           [quest_001\<lparr>progress := \<lparr>current = Fin 0, target = Fin 0, percentage = Fin 0\<rparr>\<rparr>]\<rparr>))
        ! 0)) = Fin 100
   \<and> spec_percentage (Fin 3) (Fin 0) = Fin 0"
  by (simp add: updateQuestProgress_def demo_state_def quest_001_def quest_004_def
      updatedQuest_def spec_percentage_def js_eval)

text \<open>
  C2, as the code has it. After \<open>updateQuestProgress questId p\<close>, a quest with
  that id has \<^verbatim>\<open>current\<close> equal to \<open>p\<close> exactly as it was passed, and its target
  is unchanged: nothing is clamped, so \<^verbatim>\<open>current >= 0\<close> and
  \<^verbatim>\<open>target >= current\<close> hold after the call exactly when \<^verbatim>\<open>p >= 0\<close> and
  \<^verbatim>\<open>target >= p\<close> held before it.
\<close>

theorem current_stored_as_given:
  assumes "i < length (activeQuests state)"
    and "quest_id (activeQuests state ! i) = questId"
  shows "current (progress (activeQuests (updateQuestProgress questId p state) ! i)) = p
       \<and> target (progress (activeQuests (updateQuestProgress questId p state) ! i)) =
           target (progress (activeQuests state ! i))
       \<and> (js_ge (current (progress (activeQuests (updateQuestProgress questId p state) ! i)))
              (Fin 0)
          \<and> js_ge (target (progress (activeQuests (updateQuestProgress questId p state) ! i)))
              (current (progress (activeQuests (updateQuestProgress questId p state) ! i))))
         = (js_ge p (Fin 0) \<and> js_ge (target (progress (activeQuests state ! i))) p)"
  using assms by (simp add: updateQuestProgress_nth updatedQuest_def)

theorem current_in_range_example:
  "0 < length (activeQuests demo_state)
   \<and> quest_id (activeQuests demo_state ! 0) = ''quest_001''
   \<and> current (progress (activeQuests (updateQuestProgress ''quest_001'' (Fin 3) demo_state) ! 0))
     = Fin 3
   \<and> target (progress (activeQuests (updateQuestProgress ''quest_001'' (Fin 3) demo_state) ! 0))
     = Fin 5"
  using current_stored_as_given [of 0 demo_state "''quest_001''" "Fin 3"]
  by (simp add: demo_state_def quest_001_def js_ge_def)

text \<open>
  C2 as the specification states it fails: updating \<^verbatim>\<open>quest_001\<close> (target 5) to 7
  stores \<^verbatim>\<open>current\<close> 7, above the target, and updating it to \<open>-1\<close> stores
  \<open>-1\<close>, below zero.
\<close>

theorem current_outside_range:
  "current (progress (activeQuests (updateQuestProgress ''quest_001'' (Fin 7) demo_state) ! 0))
     = Fin 7
   \<and> target (progress (activeQuests (updateQuestProgress ''quest_001'' (Fin 7) demo_state) ! 0))
     = Fin 5
   \<and> \<not> js_ge (Fin 5) (Fin 7)
   \<and> current (progress (activeQuests (updateQuestProgress ''quest_001'' (Fin (-1)) demo_state) ! 0))
     = Fin (-1)
   \<and> \<not> js_ge (Fin (-1)) (Fin 0)"
  by (simp add: updateQuestProgress_def demo_state_def quest_001_def quest_004_def
      updatedQuest_def js_ge_def)

text \<open>
  C4, as the code has it. After \<open>updateQuestProgress questId p\<close>, a quest with
  that id is \<^verbatim>\<open>completed\<close> exactly when \<^verbatim>\<open>p >= target\<close> or it was already
  completed; the prior status is not looked at, so a locked, expired or claimed
  quest is moved to \<^verbatim>\<open>completed\<close> as well. Below the target the status is
  unchanged.
\<close>

theorem status_after_update:
  assumes "i < length (activeQuests state)"
    and "quest_id (activeQuests state ! i) = questId"
  shows "status (activeQuests (updateQuestProgress questId p state) ! i) =
           (if js_ge p (target (progress (activeQuests state ! i)))
            then completed else status (activeQuests state ! i))"
  using assms by (simp add: updateQuestProgress_nth status_updatedQuest)

text \<open>Scenario A of the specification: the quest in progress reaches its target.\<close>

theorem status_scenario_A:
  "0 < length (activeQuests demo_state)
   \<and> quest_id (activeQuests demo_state ! 0) = ''quest_001''
   \<and> status (activeQuests demo_state ! 0) = in_progress
   \<and> status (activeQuests (updateQuestProgress ''quest_001'' (Fin 5) demo_state) ! 0) = completed"
  using status_after_update [of 0 demo_state "''quest_001''" "Fin 5"]
  by (simp add: demo_state_def quest_001_def js_ge_def)

text \<open>
  C4 as the specification states it fails: \<^verbatim>\<open>quest_001\<close> with the status
  \<^verbatim>\<open>locked\<close>, updated to its target 5, becomes \<^verbatim>\<open>completed\<close>.
\<close>

theorem locked_quest_completes:
  "status (activeQuests (demo_state\<lparr>activeQuests := [quest_001\<lparr>status := locked\<rparr>]\<rparr>) ! 0)
     = locked
   \<and> status (activeQuests (updateQuestProgress ''quest_001'' (Fin 5)
        (demo_state\<lparr>activeQuests := [quest_001\<lparr>status := locked\<rparr>]\<rparr>)) ! 0) = completed"
  by (simp add: updateQuestProgress_def demo_state_def quest_001_def updatedQuest_def
      js_ge_def)

section \<open>Quest progress: completion is kept\<close>

lemma status_step:
  "i < length (activeQuests state) \<Longrightarrow>
   status (activeQuests (updateQuestProgress questId p state) ! i) =
     status (activeQuests state ! i)
   \<or> status (activeQuests (updateQuestProgress questId p state) ! i) = completed"
  by (simp add: updateQuestProgress_nth status_updatedQuest)

lemma completed_family_calls:
  "i < length (activeQuests state) \<Longrightarrow>
   status (activeQuests state ! i) \<in> {completed, claimed} \<Longrightarrow>
   status (activeQuests (foldl (\<lambda>s (qid, v). updateQuestProgress qid v s) state calls) ! i)
     \<in> {completed, claimed}
   \<and> (status (activeQuests state ! i) = completed \<longrightarrow>
       status (activeQuests (foldl (\<lambda>s (qid, v). updateQuestProgress qid v s) state calls) ! i)
         = completed)"
proof (induction calls arbitrary: state)
  case Nil
  then show ?case by simp
next
  case (Cons c calls)
  obtain qid v where c: "c = (qid, v)" by (cases c)
  let ?s = "updateQuestProgress qid v state"
  have len: "i < length (activeQuests ?s)"
    using Cons.prems(1) by (simp add: length_updateQuestProgress)
  have fam: "status (activeQuests ?s ! i) \<in> {completed, claimed}"
    using status_step [OF Cons.prems(1), of qid v] Cons.prems(2) by auto
  have keep: "status (activeQuests state ! i) = completed \<Longrightarrow>
      status (activeQuests ?s ! i) = completed"
    using status_step [OF Cons.prems(1), of qid v] by auto
  from Cons.IH [OF len fam] keep show ?case
    by (auto simp: c)
qed

text \<open>
  C5, as the code has it. A quest of \<^verbatim>\<open>activeQuests\<close> whose status is
  \<^verbatim>\<open>completed\<close> or \<^verbatim>\<open>claimed\<close> has, after \<open>updateQuestProgress\<close> on it with the
  value \<open>p\<close>, the status \<^verbatim>\<open>completed\<close> if \<^verbatim>\<open>p >= target\<close> and its old status
  otherwise. So it still has one of these two statuses; a completed quest stays
  completed; a value below the target leaves the status as it was; but a claimed
  quest updated with a value at or above its target is set back to
  \<^verbatim>\<open>completed\<close>. After any sequence \<open>calls\<close> of \<open>updateQuestProgress\<close> calls,
  whatever their ids and values, the status is still one of the two, and
  \<^verbatim>\<open>completed\<close> if it was so.
\<close>

theorem completion_is_one_way:
  assumes "i < length (activeQuests state)"
    and "quest_id (activeQuests state ! i) = questId"
    and "status (activeQuests state ! i) \<in> {completed, claimed}"
  shows "status (activeQuests (updateQuestProgress questId p state) ! i) =
           (if js_ge p (target (progress (activeQuests state ! i)))
            then completed else status (activeQuests state ! i))
       \<and> status (activeQuests (updateQuestProgress questId p state) ! i) \<in> {completed, claimed}
       \<and> (status (activeQuests state ! i) = completed \<longrightarrow>
            status (activeQuests (updateQuestProgress questId p state) ! i) = completed)
       \<and> (\<not> js_ge p (target (progress (activeQuests state ! i))) \<longrightarrow>
            status (activeQuests (updateQuestProgress questId p state) ! i) =
              status (activeQuests state ! i))
       \<and> status (activeQuests (foldl (\<lambda>s (qid, v). updateQuestProgress qid v s) state calls) ! i)
            \<in> {completed, claimed}
       \<and> (status (activeQuests state ! i) = completed \<longrightarrow>
            status (activeQuests (foldl (\<lambda>s (qid, v). updateQuestProgress qid v s) state calls) ! i)
              = completed)"
  using assms completed_family_calls [of i state calls]
  by (auto simp: updateQuestProgress_nth status_updatedQuest)

theorem completed_stays_completed_example:
  "status (activeQuests (demo_state\<lparr>activeQuests := [quest_001\<lparr>status := completed\<rparr>]\<rparr>) ! 0)
     \<in> {completed, claimed}
   \<and> \<not> js_ge (Fin 2) (target (progress (quest_001\<lparr>status := completed\<rparr>)))
   \<and> status (activeQuests (updateQuestProgress ''quest_001'' (Fin 2)
      (demo_state\<lparr>activeQuests := [quest_001\<lparr>status := completed\<rparr>]\<rparr>)) ! 0) = completed
   \<and> status (activeQuests (foldl (\<lambda>s (qid, v). updateQuestProgress qid v s)
      (demo_state\<lparr>activeQuests := [quest_001\<lparr>status := completed\<rparr>]\<rparr>)
      [(''quest_001'', Fin 2), (''quest_001'', Fin 0)]) ! 0) = completed"
  using completion_is_one_way
    [of 0 "demo_state\<lparr>activeQuests := [quest_001\<lparr>status := completed\<rparr>]\<rparr>" "''quest_001''"
      "Fin 2" "[(''quest_001'', Fin 2), (''quest_001'', Fin 0)]"]
  by (simp add: demo_state_def quest_001_def js_ge_def)

text \<open>
  C5 as the specification states it fails: \<^verbatim>\<open>quest_001\<close> with the status
  \<^verbatim>\<open>claimed\<close>, updated to its target 5, does not keep its status but goes back
  to \<^verbatim>\<open>completed\<close>, against the order completed, then claimed.
\<close>

theorem claimed_quest_set_back:
  "status (activeQuests (demo_state\<lparr>activeQuests := [quest_001\<lparr>status := claimed\<rparr>]\<rparr>) ! 0)
     = claimed
   \<and> status (activeQuests (updateQuestProgress ''quest_001'' (Fin 5)
        (demo_state\<lparr>activeQuests := [quest_001\<lparr>status := claimed\<rparr>]\<rparr>)) ! 0) = completed"
  by (simp add: updateQuestProgress_def demo_state_def quest_001_def updatedQuest_def
      js_ge_def)

section \<open>Quest progress: the other quests and the other fields\<close>

lemma map_quest_refs_heap:
  "\<exists>ext. fst (map_quest_refs questId p h rs) = h @ ext"
proof (induction rs arbitrary: h)
  case Nil
  show ?case by simp
next
  case (Cons r rs)
  show ?case
  proof (cases "quest_id (h ! r) = questId")
    case True
    obtain ext where "fst (map_quest_refs questId p (h @ [updatedQuest p (h ! r)]) rs) =
        (h @ [updatedQuest p (h ! r)]) @ ext"
      using Cons.IH by blast
    then show ?thesis using True by (simp add: split_beta)
  next
    case False
    then show ?thesis using Cons.IH [of h] by (simp add: split_beta)
  qed
qed

lemma map_quest_refs_old:
  "r < length h \<Longrightarrow> fst (map_quest_refs questId p h rs) ! r = h ! r"
  using map_quest_refs_heap [of questId p h rs] by (auto simp: nth_append)

lemma map_quest_refs_length:
  "length (snd (map_quest_refs questId p h rs)) = length rs"
  by (induction rs arbitrary: h) (simp_all add: split_beta)

lemma map_quest_refs_nth:
  "refs_ok h rs \<Longrightarrow> i < length rs \<Longrightarrow> quest_id (h ! (rs ! i)) \<noteq> questId \<Longrightarrow>
   snd (map_quest_refs questId p h rs) ! i = rs ! i"
proof (induction rs arbitrary: h i)
  case Nil
  then show ?case by simp
next
  case (Cons r rs)
  show ?case
  proof (cases i)
    case 0
    then show ?thesis using Cons.prems by (simp add: split_beta)
  next
    case (Suc j)
    let ?h = "if quest_id (h ! r) = questId then h @ [updatedQuest p (h ! r)] else h"
    have ok: "refs_ok ?h rs"
      using Cons.prems(1) by (auto simp: refs_ok_def list_all_iff)
    have j: "j < length rs" using Cons.prems(2) Suc by simp
    have "rs ! j < length h"
      using Cons.prems(1) j by (simp add: refs_ok_def list_all_iff)
    then have same: "?h ! (rs ! j) = h ! (rs ! j)"
      by (simp add: nth_append)
    have "quest_id (?h ! (rs ! j)) \<noteq> questId"
      using Cons.prems(3) Suc unfolding same by simp
    from Cons.IH [OF ok j this] show ?thesis
      using Suc by (simp add: split_beta split: if_splits)
  qed
qed

lemma map_quest_refs_deref:
  "refs_ok h rs \<Longrightarrow>
   map ((!) (fst (map_quest_refs questId p h rs))) (snd (map_quest_refs questId p h rs)) =
     map (\<lambda>quest. if quest_id quest = questId then updatedQuest p quest else quest)
       (map ((!) h) rs)"
proof (induction rs arbitrary: h)
  case Nil
  show ?case by simp
next
  case (Cons r rs)
  have r: "r < length h" using Cons.prems by (simp add: refs_ok_def)
  show ?case
  proof (cases "quest_id (h ! r) = questId")
    case True
    let ?h = "h @ [updatedQuest p (h ! r)]"
    have ok: "refs_ok ?h rs"
      using Cons.prems by (auto simp: refs_ok_def list_all_iff)
    have same: "map ((!) ?h) rs = map ((!) h) rs"
      using Cons.prems by (auto simp: refs_ok_def list_all_iff nth_append)
    have new: "fst (map_quest_refs questId p ?h rs) ! length h = updatedQuest p (h ! r)"
      using map_quest_refs_old [of "length h" ?h questId p rs] by simp
    show ?thesis
      using True Cons.IH [OF ok] new by (simp add: split_beta same)
  next
    case False
    have ok: "refs_ok h rs" using Cons.prems by (simp add: refs_ok_def)
    show ?thesis
      using False Cons.IH [OF ok] map_quest_refs_old [OF r, of questId p rs]
      by (simp add: split_beta)
  qed
qed

text \<open>
  C9. With the quest objects in a heap \<open>h\<close> and \<^verbatim>\<open>activeQuests\<close> an array of
  addresses into it: after \<open>updateQuestProgress questId p\<close> the array has the
  same length; at every position whose quest has another id it holds the same
  address as before, and no object that existed before the call has been
  written to, so that quest is the same, unchanged object; read through the
  heap, the new array is the old one with each quest of the given id replaced,
  in place, by its updated copy; and the state differs from the old one in
  \<^verbatim>\<open>activeQuests\<close> only.
\<close>

theorem updateQuestProgress_frame:
  assumes "refs_ok h (activeQuests state)"
  shows "length (activeQuests (snd (updateQuestProgress_refs questId p (h, state)))) =
           length (activeQuests state)
       \<and> (i < length (activeQuests state) \<and> quest_id (h ! (activeQuests state ! i)) \<noteq> questId \<longrightarrow>
            activeQuests (snd (updateQuestProgress_refs questId p (h, state))) ! i =
              activeQuests state ! i)
       \<and> (r < length h \<longrightarrow> fst (updateQuestProgress_refs questId p (h, state)) ! r = h ! r)
       \<and> map ((!) (fst (updateQuestProgress_refs questId p (h, state))))
            (activeQuests (snd (updateQuestProgress_refs questId p (h, state)))) =
          map (\<lambda>quest. if quest_id quest = questId then updatedQuest p quest else quest)
            (map ((!) h) (activeQuests state))
       \<and> snd (updateQuestProgress_refs questId p (h, state)) =
           state\<lparr>activeQuests :=
             activeQuests (snd (updateQuestProgress_refs questId p (h, state)))\<rparr>"
  using assms
  by (simp add: updateQuestProgress_refs_def split_beta map_quest_refs_length
      map_quest_refs_nth map_quest_refs_old map_quest_refs_deref)

text \<open>
  Two quests at the addresses 0 and 1: updating the first one allocates its copy
  at address 2 and leaves address 1 in the second position.
\<close>

theorem frame_example_two_quests:
  "refs_ok [quest_001, quest_004] (activeQuests demo_refs_state)
   \<and> quest_id ([quest_001, quest_004] ! (activeQuests demo_refs_state ! 1)) \<noteq> ''quest_001''
   \<and> updateQuestProgress_refs ''quest_001'' (Fin 5) ([quest_001, quest_004], demo_refs_state) =
     ([quest_001, quest_004, updatedQuest (Fin 5) quest_001],
      demo_refs_state\<lparr>activeQuests := [2, 1]\<rparr>)"
  using updateQuestProgress_frame
    [of "[quest_001, quest_004]" demo_refs_state "''quest_001''" "Fin 5" 1 1]
  by (simp add: updateQuestProgress_refs_def demo_refs_state_def refs_ok_def
      quest_001_def quest_004_def)

section \<open>Loading\<close>

lemmas loader_defs =
  call_fetchDashboardData_def call_refreshDashboard_def setTimeout_def elapse_def
  fetchDashboardData_def fetchDashboardData_start_def fetchDashboardData_resume_def
  refreshDashboard_start_def refreshDashboard_resume_def
  setError_def setLoading_def setRefreshing_def Let_def

text \<open>
  C6. When the promise that \<^verbatim>\<open>fetchDashboardData\<close> awaits rejects, the action's
  own promise is still fulfilled (nothing is thrown to the caller), \<^verbatim>\<open>error\<close> is
  the message of the \<^verbatim>\<open>Error\<close> that was thrown, or the fixed text for any other
  thrown value, \<^verbatim>\<open>isLoading\<close> is false, and each of the seven snapshot fields has
  the value it had before the call.
\<close>

theorem fetch_failure_keeps_snapshot:
  "fst (fetchDashboardData mock (Rejected err) state) = Fulfilled
   \<and> error (snd (fetchDashboardData mock (Rejected err) state)) =
       Some (case err of ErrorObject message \<Rightarrow> message
             | OtherValue \<Rightarrow> ''Failed to fetch dashboard data'')
   \<and> isLoading (snd (fetchDashboardData mock (Rejected err) state)) = False
   \<and> user (snd (fetchDashboardData mock (Rejected err) state)) = user state
   \<and> activeQuests (snd (fetchDashboardData mock (Rejected err) state)) = activeQuests state
   \<and> activities (snd (fetchDashboardData mock (Rejected err) state)) = activities state
   \<and> upcomingClasses (snd (fetchDashboardData mock (Rejected err) state)) = upcomingClasses state
   \<and> leaderboard (snd (fetchDashboardData mock (Rejected err) state)) = leaderboard state
   \<and> featuredBadges (snd (fetchDashboardData mock (Rejected err) state)) = featuredBadges state
   \<and> weeklyStats (snd (fetchDashboardData mock (Rejected err) state)) = weeklyStats state"
  by (simp add: loader_defs)

text \<open>Scenario B of the specification: the load is rejected with "Network error".\<close>

theorem fetch_failure_scenario_B:
  "fetchDashboardData demo_mock (Rejected (ErrorObject ''Network error'')) demo_state =
     (Fulfilled, demo_state\<lparr>error := Some ''Network error''\<rparr>)"
  using fetch_failure_keeps_snapshot [of demo_mock "ErrorObject ''Network error''" demo_state]
  by (simp add: loader_defs demo_state_def initialState_def)

text \<open>
  C3, as the code has it. The loaders carry no token: the result of a load is
  written into the state when its timer fires, whatever has happened since the
  call. With no timer pending, let \<^verbatim>\<open>fetchDashboardData\<close> be called and, \<open>d\<close>
  milliseconds later with \<open>d < 300\<close>, \<^verbatim>\<open>refreshDashboard\<close>. After 500 more
  milliseconds the refresh has written its user (the mock user with the draw
  added to \<^verbatim>\<open>currentXP\<close>) and the fetch is still waiting. When the fetch's timer
  fires, \<open>300 - d\<close> milliseconds later, it overwrites the user with the mock
  user and writes the other six snapshot fields: the request that resolves last
  wins.
\<close>

theorem last_resolved_load_wins:
  assumes "timers w = []" and "d < 300"
  shows "user (store (elapse mock 500 (call_refreshDashboard draw
                (elapse mock d (call_fetchDashboardData w))))) =
           Some ((mockUser mock)\<lparr>stats := (stats (mockUser mock))
                   \<lparr>currentXP := js_add (currentXP (stats (mockUser mock))) draw\<rparr>\<rparr>)
       \<and> timers (elapse mock 500 (call_refreshDashboard draw
                (elapse mock d (call_fetchDashboardData w)))) = [(clock w + 800, FetchTask)]
       \<and> store (elapse mock (300 - d) (elapse mock 500 (call_refreshDashboard draw
                (elapse mock d (call_fetchDashboardData w))))) =
           (store w)\<lparr> user := Some (mockUser mock),
                      activeQuests := mockActiveQuests mock,
                      activities := mockActivities mock,
                      upcomingClasses := mockUpcomingClasses mock,
                      leaderboard := mockLeaderboard mock,
                      featuredBadges := mockFeaturedBadges mock,
                      weeklyStats := Some (mockWeeklyStats mock),
                      isLoading := False, isRefreshing := False, error := None \<rparr>
       \<and> timers (elapse mock (300 - d) (elapse mock 500 (call_refreshDashboard draw
                (elapse mock d (call_fetchDashboardData w))))) = []"
  using assms by (simp add: loader_defs)

theorem fetch_after_refresh_example:
  "timers demo_world = [] \<and> (50::nat) < 300
   \<and> activeQuests (store (elapse demo_mock 250 (elapse demo_mock 500 (call_refreshDashboard (Fin 3)
       (elapse demo_mock 50 (call_fetchDashboardData demo_world)))))) = [quest_001, quest_004]
   \<and> timers (elapse demo_mock 500 (call_refreshDashboard (Fin 3)
       (elapse demo_mock 50 (call_fetchDashboardData demo_world)))) = [(800, FetchTask)]"
  using last_resolved_load_wins [of demo_world 50 demo_mock "Fin 3"]
  by (simp add: demo_world_def demo_mock_def)

text \<open>
  C3 as the specification states it fails. \<^verbatim>\<open>fetchDashboardData\<close> is called at
  time 0 and \<^verbatim>\<open>refreshDashboard\<close> at time 100, with the draw 7. At time 600 the
  refresh has put a user with 2457 XP into the state. At time 800 the fetch
  resolves and the user is the mock user with 2450 XP again: the refresh's data
  did not remain in place.
\<close>

theorem stale_fetch_overwrites_refresh:
  "user (store (elapse demo_mock 500 (call_refreshDashboard (Fin 7)
       (elapse demo_mock 100 (call_fetchDashboardData demo_world))))) =
     Some (mock_user\<lparr>stats := mockUserStats\<lparr>currentXP := Fin 2457\<rparr>\<rparr>)
   \<and> user (store (elapse demo_mock 200 (elapse demo_mock 500 (call_refreshDashboard (Fin 7)
       (elapse demo_mock 100 (call_fetchDashboardData demo_world)))))) = Some mock_user
   \<and> mock_user \<noteq> mock_user\<lparr>stats := mockUserStats\<lparr>currentXP := Fin 2457\<rparr>\<rparr>"
  by (simp add: loader_defs demo_mock_def demo_world_def mock_user_def mockUserStats_def
      js_eval)

section \<open>Activities\<close>

lemma take_Cons_take: "take n (x # take n xs) = take n (x # xs)"
  by (cases n) simp_all

lemma activities_addActivity_calls:
  "activities (foldl (\<lambda>s x. addActivity x s) state (as @ [a])) =
     take 20 (a # rev as @ activities state)"
proof (induction as arbitrary: a rule: rev_induct)
  case Nil
  show ?case by (simp add: addActivity_def)
next
  case (snoc b as)
  have "activities (foldl (\<lambda>s x. addActivity x s) state ((as @ [b]) @ [a])) =
        take 20 (a # activities (foldl (\<lambda>s x. addActivity x s) state (as @ [b])))"
    by (simp add: addActivity_def)
  also have "\<dots> = take 20 (a # take 20 (b # rev as @ activities state))"
    by (simp only: snoc.IH)
  also have "\<dots> = take 20 (a # b # rev as @ activities state)"
    by (rule take_Cons_take)
  finally show ?case by simp
qed

text \<open>
  C7. \<open>addActivity a\<close> puts \<open>a\<close> in front of the activities and keeps the first
  20 entries. After the calls \<open>as\<close> followed by \<open>a\<close>, in this order, the list is
  the first 20 entries of the added activities, newest first, followed by the
  old ones: its length is the smaller of 20 and the number of entries there
  would be, so at most 20; \<open>a\<close> is first; and what is cut off is the tail, the
  oldest entries.
\<close>

theorem addActivity_bounded_history:
  "activities (addActivity a state) = take 20 (a # activities state)
   \<and> activities (foldl (\<lambda>s x. addActivity x s) state (as @ [a])) =
       take 20 (a # rev as @ activities state)
   \<and> length (activities (foldl (\<lambda>s x. addActivity x s) state (as @ [a]))) =
       min 20 (Suc (length as + length (activities state)))
   \<and> length (activities (foldl (\<lambda>s x. addActivity x s) state (as @ [a]))) \<le> 20
   \<and> hd (activities (foldl (\<lambda>s x. addActivity x s) state (as @ [a]))) = a"
proof -
  let ?final = "activities (foldl (\<lambda>s x. addActivity x s) state (as @ [a]))"
  have one: "activities (addActivity a state) = take 20 (a # activities state)"
    by (simp add: addActivity_def)
  have all: "?final = take 20 (a # rev as @ activities state)"
    by (rule activities_addActivity_calls)
  have len: "length ?final = min 20 (Suc (length as + length (activities state)))"
    unfolding all by simp
  have hd: "hd ?final = a"
    unfolding all by simp
  from one all len hd show ?thesis by simp
qed

text \<open>
  Nineteen old activities and three new ones: the two oldest are dropped and
  the newest is first.
\<close>

theorem addActivity_evicts_oldest_example:
  "activities (foldl (\<lambda>s x. addActivity x s)
     (demo_state\<lparr>activities := replicate 19 ''old''\<rparr>)
     ([''new_1'', ''new_2''] @ [''new_3''])) =
     [''new_3'', ''new_2'', ''new_1''] @ replicate 17 ''old''"
  using addActivity_bounded_history
    [of "''new_3''" "demo_state\<lparr>activities := replicate 19 ''old''\<rparr>" "[''new_1'', ''new_2'']"]
  by (simp add: demo_state_def numeral_eq_Suc)

section \<open>Pending rewards\<close>

lemma js_add_finite_from_zero:
  assumes "is_zero z" and "is_double (Fin x)" and "x + y \<noteq> 0"
  shows "js_add (js_add z (Fin x)) (Fin y) = round_double (x + y)"
proof -
  have "js_add z (Fin x) = Fin x"
    using assms(1,2) by (cases z) (auto simp: js_add_def signed_zero_def is_double_def)
  then show ?thesis
    using assms(3) by (simp add: js_add_def)
qed

text \<open>
  C8. \<open>addPendingXP a\<close> then \<open>addPendingXP b\<close> leaves \<^verbatim>\<open>pendingXPGain\<close> at the
  old counter plus \<open>a\<close> plus \<open>b\<close>, two additions of doubles with nothing cut
  off. From a counter that is zero and for a double \<open>a\<close>, that is \<^verbatim>\<open>a + b\<close> (or
  the positive zero where \<^verbatim>\<open>a + b\<close> is the negative one, which \<^verbatim>\<open>==\<close> does not
  tell apart): for finite amounts the sum rounded to the nearest double.
  \<open>addPendingCoins\<close> does the same on \<^verbatim>\<open>pendingCoinsGain\<close>. In any state,
  neither action changes anything but its own counter, and
  \<open>clearPendingRewards\<close> sets both counters to 0 and changes nothing else.
\<close>

theorem pending_rewards_additive:
  "(is_zero (pendingXPGain state) \<and> is_double a \<longrightarrow>
      pendingXPGain (addPendingXP b (addPendingXP a state)) = js_add a b
      \<or> (pendingXPGain (addPendingXP b (addPendingXP a state)) = Fin 0
         \<and> js_add a b = NegZero))
   \<and> (is_zero (pendingCoinsGain state) \<and> is_double a \<longrightarrow>
      pendingCoinsGain (addPendingCoins b (addPendingCoins a state)) = js_add a b
      \<or> (pendingCoinsGain (addPendingCoins b (addPendingCoins a state)) = Fin 0
         \<and> js_add a b = NegZero))
   \<and> (is_zero (pendingXPGain state) \<and> is_double (Fin x) \<and> x + y \<noteq> 0 \<longrightarrow>
      pendingXPGain (addPendingXP (Fin y) (addPendingXP (Fin x) state)) = round_double (x + y))
   \<and> (is_zero (pendingCoinsGain state) \<and> is_double (Fin x) \<and> x + y \<noteq> 0 \<longrightarrow>
      pendingCoinsGain (addPendingCoins (Fin y) (addPendingCoins (Fin x) state)) =
        round_double (x + y))
   \<and> pendingXPGain (addPendingXP b (addPendingXP a state)) =
       js_add (js_add (pendingXPGain state) a) b
   \<and> pendingCoinsGain (addPendingCoins b (addPendingCoins a state)) =
       js_add (js_add (pendingCoinsGain state) a) b
   \<and> addPendingXP a state = state\<lparr>pendingXPGain := pendingXPGain (addPendingXP a state)\<rparr>
   \<and> addPendingCoins a state =
       state\<lparr>pendingCoinsGain := pendingCoinsGain (addPendingCoins a state)\<rparr>
   \<and> pendingCoinsGain (addPendingXP a state) = pendingCoinsGain state
   \<and> pendingXPGain (addPendingCoins a state) = pendingXPGain state
   \<and> pendingXPGain (clearPendingRewards state) = Fin 0
   \<and> pendingCoinsGain (clearPendingRewards state) = Fin 0
   \<and> clearPendingRewards state = state\<lparr>pendingXPGain := Fin 0, pendingCoinsGain := Fin 0\<rparr>"
  using js_add_from_zero [of "pendingXPGain state" a b]
    js_add_from_zero [of "pendingCoinsGain state" a b]
    js_add_finite_from_zero [of "pendingXPGain state" x y]
    js_add_finite_from_zero [of "pendingCoinsGain state" x y]
  by (simp add: addPendingXP_def addPendingCoins_def clearPendingRewards_def)

theorem pending_rewards_example:
  "is_zero (pendingXPGain demo_state) \<and> is_zero (pendingCoinsGain demo_state)
   \<and> is_double (Fin 100) \<and> (100::rat) + 50 \<noteq> 0
   \<and> pendingXPGain (addPendingXP (Fin 50) (addPendingXP (Fin 100) demo_state)) = Fin 150
   \<and> pendingCoinsGain (addPendingCoins (Fin 50) (addPendingCoins (Fin 100) demo_state)) = Fin 150
   \<and> pendingCoinsGain (addPendingXP (Fin 100) demo_state) = Fin 0"
  using pending_rewards_additive [of demo_state "Fin 100" "Fin 50" 100 50]
  by (simp add: demo_state_def initialState_def addPendingXP_def addPendingCoins_def js_eval)

section \<open>Filters\<close>

text \<open>
  C10. \<open>setFilters p\<close> merges \<open>p\<close> into the filters: a key that \<open>p\<close> has takes
  the value \<open>p\<close> gives it, a key that \<open>p\<close> does not have keeps its value, the
  state changes in \<^verbatim>\<open>filters\<close> only, and the empty object leaves the filters as
  they were.
\<close>

theorem setFilters_merges:
  "filters (setFilters p state) = filters state ++ p
   \<and> (p k = Some v \<longrightarrow> filters (setFilters p state) k = Some v)
   \<and> (p k' = None \<longrightarrow> filters (setFilters p state) k' = filters state k')
   \<and> setFilters p state = state\<lparr>filters := filters (setFilters p state)\<rparr>
   \<and> filters (setFilters Map.empty state) = filters state"
  by (simp add: setFilters_def map_add_def)

theorem filters_merge_example:
  "[''timeRange'' \<mapsto> TimeRangeValue week] ''timeRange'' = Some (TimeRangeValue week)
   \<and> [''timeRange'' \<mapsto> TimeRangeValue week] ''questType'' = None
   \<and> filters (setFilters [''timeRange'' \<mapsto> TimeRangeValue week]
      (demo_state\<lparr>filters := [''questType'' \<mapsto> QuestTypeValue daily,
                              ''timeRange'' \<mapsto> TimeRangeValue today]\<rparr>)) =
   [''questType'' \<mapsto> QuestTypeValue daily, ''timeRange'' \<mapsto> TimeRangeValue week]"
  using setFilters_merges [of "[''timeRange'' \<mapsto> TimeRangeValue week]"
      "demo_state\<lparr>filters := [''questType'' \<mapsto> QuestTypeValue daily,
                              ''timeRange'' \<mapsto> TimeRangeValue today]\<rparr>"
      "''timeRange''" "TimeRangeValue week" "''questType''"]
  by (simp add: demo_state_def)

end
